theory Spec2Isabelle
  imports Main "HOL-Library.Word" "HOL-Library.Sublist"
begin

unbundle bit_operations_syntax

section \<open>Identifier resolver: \<open>Validator.Block\<close>\<close>

text \<open>
  The Rosetta block identifier of package \<open>identifier\<close>: \<open>Index\<close> is a \<open>*uint64\<close>
  (\<open>None\<close> is the nil pointer), \<open>Hash\<close> is a string (the empty string when absent).
\<close>

record Block =
  Index :: "64 word option"
  Hash :: string

text \<open>
  A block header as the access API returns it: only the two fields that
  \<open>Validator.Block\<close> reads. The type \<open>'id\<close> stands for the 32-byte identifier
  (\<open>flow.Identifier\<close> and \<open>sdk.Identifier\<close>, converted into each other without change).
\<close>

record 'id BlockHeader =
  Height :: "64 word"
  ID :: 'id

text \<open>
  The chain-access collaborator \<open>v.accessAPI\<close>, one field per call \<open>Validator.Block\<close>
  makes. A call either fails with an error of the collaborator (\<open>Inl\<close>) or returns a header.
\<close>

record ('id, 'e) accessAPI =
  GetLatestBlockHeader :: "'e + 'id BlockHeader"
  GetBlockHeaderByID :: "'id \<Rightarrow> 'e + 'id BlockHeader"
  GetBlockHeaderByHeight :: "64 word \<Rightarrow> 'e + 'id BlockHeader"

text \<open>
  The functions of the Flow libraries that \<open>Validator.Block\<close> calls on identifiers:
  \<open>flow.HexStringToIdentifier\<close> (which may fail), \<open>sdk.HexToID\<close> (which cannot) and the method
  \<open>Hex\<close> of an identifier. They are libraries outside the repository and stay parameters.
\<close>

record ('id, 'e) flowlib =
  HexStringToIdentifier :: "string \<Rightarrow> 'e + 'id"
  HexToID :: "string \<Rightarrow> 'id"
  Hex :: "'id \<Rightarrow> string"

text \<open>
  Package \<open>failure\<close>: a description is a text and a list of named fields. The texts are
  constants of package \<open>validator\<close> (\<open>blockInvalid\<close>, ...); only their names occur in the
  function, so they are the constructors of a datatype.
\<close>

datatype message = blockInvalid | blockTooLow | blockTooHigh | blockMismatch | blockNotFull

datatype field = WithString string string | WithUint64 string "64 word"

record Description =
  Text :: message
  Named :: "field list"

definition NewDescription :: "message \<Rightarrow> field list \<Rightarrow> Description" where
  "NewDescription t fs = \<lparr>Text = t, Named = fs\<rparr>"

text \<open>
  The errors \<open>Validator.Block\<close> returns: the three failures of package \<open>failure\<close>, and
  \<open>Errorf msg e\<close> for \<open>fmt.Errorf("msg: %w", e)\<close> around an error of a collaborator or library.
\<close>

datatype 'e error =
    InvalidBlock Description
  | UnknownBlock "64 word" string Description
  | IncompleteBlock Description
  | Errorf string 'e

text \<open>The local \<open>var first uint64 = 0\<close> of \<open>Validator.Block\<close>.\<close>

definition first :: "64 word" where
  "first = 0"

text \<open>
  \<open>Validator.Block\<close>, statement by statement; every \<open>return\<close> with an error is an \<open>Inl\<close>.
  The Go function returns \<open>(0, flow.ZeroID, err)\<close> on failure, which carries nothing but
  the error.
\<close>

definition checkHash :: "('id, 'e) flowlib \<Rightarrow> Block \<Rightarrow> 'e error option" where
  "checkHash lib rosBlockID =
     (if Hash rosBlockID \<noteq> [] then
        (case HexStringToIdentifier lib (Hash rosBlockID) of
           Inl err \<Rightarrow> Some (InvalidBlock (NewDescription blockInvalid
                         [WithString ''block_hash'' (Hash rosBlockID)]))
         | Inr _ \<Rightarrow> None)
      else None)"

definition checkIndex :: "('id, 'e) accessAPI \<Rightarrow> Block \<Rightarrow> 'e error option" where
  "checkIndex api rosBlockID =
     (case Index rosBlockID of
        None \<Rightarrow> None
      | Some index \<Rightarrow>
          if index < first then
            Some (InvalidBlock (NewDescription blockTooLow
                    [WithUint64 ''block_index'' index, WithUint64 ''first_index'' first]))
          else
            (case GetLatestBlockHeader api of
               Inl err \<Rightarrow> Some (Errorf ''could not get last'' err)
             | Inr last' \<Rightarrow>
                 if index > Height last' then
                   Some (UnknownBlock index (Hash rosBlockID)
                           (NewDescription blockTooHigh [WithUint64 ''last_index'' (Height last')]))
                 else None))"

definition fillHeight :: "('id, 'e) flowlib \<Rightarrow> ('id, 'e) accessAPI \<Rightarrow> Block \<Rightarrow> 'e error + 64 word" where
  "fillHeight lib api rosBlockID =
     (case Index rosBlockID of
        None \<Rightarrow>
          (case GetBlockHeaderByID api (HexToID lib (Hash rosBlockID)) of
             Inl err \<Rightarrow> Inl (Errorf ''could not get height for block'' err)
           | Inr height \<Rightarrow> Inr (Height height))
      | Some index \<Rightarrow> Inr index)"

definition matchHeader ::
  "('id, 'e) flowlib \<Rightarrow> ('id, 'e) accessAPI \<Rightarrow> Block \<Rightarrow> 64 word \<Rightarrow> 'e error + 64 word \<times> 'id" where
  "matchHeader lib api rosBlockID index =
     (case GetBlockHeaderByHeight api index of
        Inl err \<Rightarrow> Inl (Errorf ''could not get header'' err)
      | Inr header \<Rightarrow>
          if Hash rosBlockID \<noteq> [] \<and> Hash rosBlockID \<noteq> Hex lib (ID header) then
            Inl (InvalidBlock (NewDescription blockMismatch
                   [WithUint64 ''block_index'' index,
                    WithString ''block_hash'' (Hash rosBlockID),
                    WithString ''want_hash'' (Hex lib (ID header))]))
          else
            (case HexStringToIdentifier lib (Hex lib (ID header)) of
               Inl err \<Rightarrow> Inl (Errorf ''could not convert to identifier'' err)
             | Inr identifier \<Rightarrow> Inr (Height header, identifier)))"

definition Block :: "('id, 'e) flowlib \<Rightarrow> ('id, 'e) accessAPI \<Rightarrow> Block \<Rightarrow> 'e error + 64 word \<times> 'id" where
  "Block lib api rosBlockID =
     (if Index rosBlockID = None \<and> Hash rosBlockID = [] then
        (case GetLatestBlockHeader api of
           Inl err \<Rightarrow> Inl (Errorf ''could not retrieve last'' err)
         | Inr last' \<Rightarrow> Inr (Height last', ID last'))
      else
        (case checkHash lib rosBlockID of
           Some e \<Rightarrow> Inl e
         | None \<Rightarrow>
             (case checkIndex api rosBlockID of
                Some e \<Rightarrow> Inl e
              | None \<Rightarrow>
                  (case fillHeight lib api rosBlockID of
                     Inl e \<Rightarrow> Inl e
                   | Inr index \<Rightarrow> matchHeader lib api rosBlockID index))))"

text \<open>\<open>Validator.CompleteBlockID\<close>: \<open>None\<close> is the nil error.\<close>

definition CompleteBlockID :: "Block \<Rightarrow> 'e error option" where
  "CompleteBlockID rosBlockID =
     (if Index rosBlockID = None \<or> Hash rosBlockID = [] then
        Some (IncompleteBlock (NewDescription blockNotFull []))
      else None)"

text \<open>
  An instance of the libraries and of the collaborator, for evaluating \<open>Block\<close> on
  concrete inputs. An identifier is represented by its hexadecimal form in lower case,
  64 digits; \<open>HexStringToIdentifier\<close> accepts exactly the strings of 64 hexadecimal
  digits (the fixed-length hex of the specification, section 4.1, step 2).
\<close>

definition isHex :: "char \<Rightarrow> bool" where
  "isHex c = (c \<in> set ''0123456789abcdefABCDEF'')"

definition lowerHex :: "char \<Rightarrow> char" where
  "lowerHex c = (case map_of (zip ''ABCDEF'' ''abcdef'') c of None \<Rightarrow> c | Some d \<Rightarrow> d)"

definition hexIdentifiers :: "(string, string) flowlib" where
  "hexIdentifiers =
     \<lparr>HexStringToIdentifier =
        (\<lambda>s. if length s = 64 \<and> list_all isHex s then Inr (map lowerHex s)
             else Inl ''malformed input''),
      HexToID = map lowerHex,
      Hex = (\<lambda>i. i)\<rparr>"

text \<open>A chain of six blocks, heights 0 to 5; the identifier of the block at height 3 is 64 times the digit 3.\<close>

definition chainIDs :: "(64 word \<times> string) list" where
  "chainIDs =
     [(0, ''0000000000000000000000000000000000000000000000000000000000000000''),
      (1, ''1111111111111111111111111111111111111111111111111111111111111111''),
      (2, ''2222222222222222222222222222222222222222222222222222222222222222''),
      (3, ''3333333333333333333333333333333333333333333333333333333333333333''),
      (4, ''4444444444444444444444444444444444444444444444444444444444444444''),
      (5, ''5555555555555555555555555555555555555555555555555555555555555555'')]"

definition sixBlocks :: "(string, string) accessAPI" where
  "sixBlocks =
     \<lparr>GetLatestBlockHeader =
        Inr \<lparr>Height = 5, ID = ''5555555555555555555555555555555555555555555555555555555555555555''\<rparr>,
      GetBlockHeaderByID =
        (\<lambda>i. case find (\<lambda>entry. snd entry = i) chainIDs of
               None \<Rightarrow> Inl ''not found''
             | Some entry \<Rightarrow> Inr \<lparr>Height = fst entry, ID = i\<rparr>),
      GetBlockHeaderByHeight =
        (\<lambda>h. case map_of chainIDs h of
               None \<Rightarrow> Inl ''not found''
             | Some i \<Rightarrow> Inr \<lparr>Height = h, ID = i\<rparr>)\<rparr>"

section \<open>Value normalizer: \<open>flatten\<close>\<close>

text \<open>
  The Cadence values \<open>flatten\<close> distinguishes by type assertion: \<open>cadence.Struct\<close> (its
  \<open>StructType.Fields\<close>, of which \<open>flatten\<close> reads the \<open>Identifier\<close>, and its \<open>Fields\<close>, the
  field values), \<open>cadence.Dictionary\<close> (its \<open>Pairs\<close> of \<open>Key\<close> and \<open>Value\<close>),
  \<open>cadence.Array\<close> (its \<open>Values\<close>), and every other value, \<open>Scalar\<close>, of which \<open>flatten\<close>
  only takes the text \<open>String()\<close>. Values are not nil.
\<close>

datatype Field = Field (Identifier: string)

datatype StructType = StructType (Fields: "Field list")

datatype 'a Value =
    Struct StructType "'a Value list"
  | Dictionary "('a Value \<times> 'a Value) list"
  | Array "'a Value list"
  | Scalar 'a

text \<open>
  The result, an \<open>interface{}\<close> holding a \<open>map[string]interface{}\<close>, a
  \<open>[]interface{}\<close> or a \<open>string\<close>.
\<close>

datatype tree =
    TMap "string \<Rightarrow> tree option"
  | TList "tree list"
  | TString string

text \<open>The run-time panic of an index expression out of range.\<close>

datatype panic = IndexOutOfRange

text \<open>
  \<open>flatten\<close>, with its three loops as recursive functions over the rest of the slice and
  the result built so far. \<open>String\<close> is the method \<open>String()\<close> of a Cadence value and
  \<open>Unquote\<close> is \<open>strconv.Unquote\<close> (\<open>None\<close> when it returns an error): both belong to
  libraries and are parameters. In the loop over the fields, \<open>subStructNames[j]\<close> panics
  when \<open>j\<close> is not below the length of \<open>subStructNames\<close>.
\<close>

fun flatten :: "('a Value \<Rightarrow> string) \<Rightarrow> (string \<Rightarrow> string option) \<Rightarrow> 'a Value \<Rightarrow> panic + tree"
and flattenFields :: "('a Value \<Rightarrow> string) \<Rightarrow> (string \<Rightarrow> string option) \<Rightarrow> Field list \<Rightarrow> nat \<Rightarrow> 'a Value list \<Rightarrow> (string \<Rightarrow> tree option) \<Rightarrow> panic + (string \<Rightarrow> tree option)"
and flattenPairs :: "('a Value \<Rightarrow> string) \<Rightarrow> (string \<Rightarrow> string option) \<Rightarrow> ('a Value \<times> 'a Value) list \<Rightarrow> (string \<Rightarrow> tree option) \<Rightarrow> panic + (string \<Rightarrow> tree option)"
and flattenValues :: "('a Value \<Rightarrow> string) \<Rightarrow> (string \<Rightarrow> string option) \<Rightarrow> 'a Value list \<Rightarrow> tree list \<Rightarrow> panic + tree list"
where
  "flatten String Unquote (Struct structType subFields) =
     (case flattenFields String Unquote (Fields structType) 0 subFields Map.empty of
        Inl p \<Rightarrow> Inl p | Inr result \<Rightarrow> Inr (TMap result))"
| "flatten String Unquote (Dictionary pairs) =
     (case flattenPairs String Unquote pairs Map.empty of
        Inl p \<Rightarrow> Inl p | Inr result \<Rightarrow> Inr (TMap result))"
| "flatten String Unquote (Array values) =
     (case flattenValues String Unquote values [] of
        Inl p \<Rightarrow> Inl p | Inr result \<Rightarrow> Inr (TList result))"
| "flatten String Unquote (Scalar x) =
     (case Unquote (String (Scalar x)) of
        None \<Rightarrow> Inr (TString (String (Scalar x)))
      | Some result \<Rightarrow> Inr (TString result))"
| "flattenFields String Unquote subStructNames j [] result = Inr result"
| "flattenFields String Unquote subStructNames j (subField # rest) result =
     (if j < length subStructNames then
        (case flatten String Unquote subField of
           Inl p \<Rightarrow> Inl p
         | Inr t \<Rightarrow> flattenFields String Unquote subStructNames (Suc j) rest
                     (result(Identifier (subStructNames ! j) \<mapsto> t)))
      else Inl IndexOutOfRange)"
| "flattenPairs String Unquote [] result = Inr result"
| "flattenPairs String Unquote (item # rest) result =
     (case flatten String Unquote (snd item) of
        Inl p \<Rightarrow> Inl p
      | Inr t \<Rightarrow> flattenPairs String Unquote rest (result(String (fst item) \<mapsto> t)))"
| "flattenValues String Unquote [] result = Inr result"
| "flattenValues String Unquote (item # rest) result =
     (case flatten String Unquote item of
        Inl p \<Rightarrow> Inl p
      | Inr t \<Rightarrow> flattenValues String Unquote rest (result @ [t]))"

text \<open>
  The invariant of a value built by the Cadence decoder: a struct has no more field
  values than its type declares fields, and so have the values \<open>flatten\<close> descends
  into (the keys of a dictionary are only printed).
\<close>

fun wellTyped :: "'a Value \<Rightarrow> bool" where
  "wellTyped (Struct structType subFields) =
     (length subFields \<le> length (Fields structType) \<and> list_all wellTyped subFields)"
| "wellTyped (Dictionary pairs) = list_all (\<lambda>item. wellTyped (snd item)) pairs"
| "wellTyped (Array values) = list_all wellTyped values"
| "wellTyped (Scalar x) = True"

text \<open>
  The tree the specification describes (section 4.3): a record becomes the mapping from
  field name to the flattened field, a mapping becomes the mapping from the text of the key
  to the flattened value, an array the list of the flattened elements in order, a scalar
  its unquoted text, or its text when unquoting fails. Where a name or a key text occurs
  twice, the later entry stands.
\<close>

fun normalise :: "('a Value \<Rightarrow> string) \<Rightarrow> (string \<Rightarrow> string option) \<Rightarrow> 'a Value \<Rightarrow> tree" where
  "normalise String Unquote (Struct structType subFields) =
     TMap (map_of (rev (zip (map Identifier (Fields structType))
                            (map (normalise String Unquote) subFields))))"
| "normalise String Unquote (Dictionary pairs) =
     TMap (map_of (rev (map (\<lambda>item. (String (fst item), normalise String Unquote (snd item))) pairs)))"
| "normalise String Unquote (Array values) = TList (map (normalise String Unquote) values)"
| "normalise String Unquote (Scalar x) =
     TString (case Unquote (String (Scalar x)) of
                None \<Rightarrow> String (Scalar x) | Some unquoted \<Rightarrow> unquoted)"

text \<open>
  An instance of the two library functions, for evaluating \<open>flatten\<close> on concrete
  values: a scalar holds its text, and unquoting removes a pair of double quotes around a
  text.
\<close>

definition exampleString :: "string Value \<Rightarrow> string" where
  "exampleString v = (case v of Scalar s \<Rightarrow> s | _ \<Rightarrow> ''composite'')"

definition exampleUnquote :: "string \<Rightarrow> string option" where
  \<open>exampleUnquote s =
     (if 2 \<le> length s \<and> hd s = CHR ''"'' \<and> last s = CHR ''"'' then Some (butlast (tl s)) else None)\<close>

section \<open>Fixed-point converter: \<open>UFix64ToUInt64String\<close>\<close>

text \<open>Decimal digits, the value of a string of digits, and \<open>strconv.FormatUint(u, 10)\<close>.\<close>

definition digitChars :: string where
  "digitChars = ''0123456789''"

definition isDigit :: "char \<Rightarrow> bool" where
  "isDigit c = (c \<in> set digitChars)"

definition digitVal :: "char \<Rightarrow> nat" where
  "digitVal c = length (takeWhile (\<lambda>d. d \<noteq> c) digitChars)"

definition digitChar :: "nat \<Rightarrow> char" where
  "digitChar d = digitChars ! d"

definition decimal :: "string \<Rightarrow> nat" where
  "decimal s = foldl (\<lambda>n c. 10 * n + digitVal c) 0 s"

fun formatNat :: "nat \<Rightarrow> string" where
  "formatNat n = (if n < 10 then [digitChar n] else formatNat (n div 10) @ [digitChar (n mod 10)])"

declare formatNat.simps [simp del]

definition FormatUint :: "64 word \<Rightarrow> string" where
  "FormatUint u = formatNat (unat u)"

text \<open>
  The parts of a fixed-point string before and after its first point, the integer parts
  written without a redundant leading zero (the form a formatter writes), and the value
  times \<open>10^8\<close> of an integer part and a fraction of 8 digits.
\<close>

definition splitPoint :: "string \<Rightarrow> (string \<times> string) option" where
  "splitPoint s =
     (case dropWhile (\<lambda>c. c \<noteq> CHR ''.'') s of
        [] \<Rightarrow> None
      | _ # fractional \<Rightarrow> Some (takeWhile (\<lambda>c. c \<noteq> CHR ''.'') s, fractional))"

definition canonicalDigits :: "string \<Rightarrow> bool" where
  "canonicalDigits s = (s \<noteq> [] \<and> list_all isDigit s \<and> (length s = 1 \<or> hd s \<noteq> CHR ''0''))"

definition scaled :: "string \<Rightarrow> string \<Rightarrow> nat" where
  "scaled integer fractional = decimal integer * 10 ^ 8 + decimal fractional"

text \<open>
  Modelled from the spec: the valid representations of \<open>cadence.NewUFix64\<close>, the parser of
  the Cadence library, which is not under src/. Section 4.4 has a valid string be an
  unsigned fixed-point number with exactly 8 fractional digits, and names the wrong digit
  count, the negative and the non-numeric as invalid: an integer part of one or more
  digits, a point, 8 digits, the value times \<open>10^8\<close> held in 64 bits.
\<close>

definition validUFix64 :: "string \<Rightarrow> bool" where
  "validUFix64 s =
     (case splitPoint s of
        None \<Rightarrow> False
      | Some (integer, fractional) \<Rightarrow>
          integer \<noteq> [] \<and> list_all isDigit integer \<and>
          length fractional = 8 \<and> list_all isDigit fractional \<and>
          scaled integer fractional < 2 ^ 64)"

text \<open>The error of the parser.\<close>

datatype parseError = ParseError

text \<open>
  Modelled from the spec: \<open>cadence.NewUFix64\<close>, which is not under src/. By section 4.4
  it returns the integer value times \<open>10^8\<close> of a valid string, and fails with a parse
  error on every other string.
\<close>

definition NewUFix64 :: "string \<Rightarrow> parseError + 64 word" where
  "NewUFix64 s =
     (if validUFix64 s then
        (case splitPoint s of
           None \<Rightarrow> Inl ParseError
         | Some (integer, fractional) \<Rightarrow> Inr (word_of_nat (scaled integer fractional)))
      else Inl ParseError)"

text \<open>
  \<open>UFix64ToUInt64String\<close>: the Go pair of the string and the error (\<open>None\<close> for nil);
  \<open>ufix.ToGoValue().(uint64)\<close> is the 64-bit word itself.
\<close>

definition UFix64ToUInt64String :: "string \<Rightarrow> string \<times> parseError option" where
  "UFix64ToUInt64String UFix64 =
     (case NewUFix64 UFix64 of
        Inl err \<Rightarrow> ([], Some err)
      | Inr ufix \<Rightarrow> (FormatUint ufix, None))"

text \<open>A text of at most 8 digits, filled with zeros on the left to 8 digits.\<close>

definition pad8 :: "string \<Rightarrow> string" where
  "pad8 s = drop (length s) ''00000000'' @ s"

text \<open>
  Modelled from the spec: the formatting of an integer of minor units back to the
  8-decimal form (section 8), which no function under src/ performs: the quotient by
  \<open>10^8\<close>, a point, the remainder on 8 digits.
\<close>

definition formatUFix64 :: "nat \<Rightarrow> string" where
  "formatUFix64 n = formatNat (n div 10 ^ 8) @ ''.'' @ pad8 (formatNat (n mod 10 ^ 8))"

section \<open>Script generator\<close>

text \<open>
  The chain parameters \<open>dps.Params\<close> and a token \<open>dps.Token\<close>, with the fields the
  templates read; an address among them is held as the text a template prints for it.
  \<open>Tokens\<close> is the registry, a Go map from symbol to token.
\<close>

record Token =
  Symbol :: string
  Address :: string
  Type :: string
  Balance :: string

type_synonym ChainID = string

type_synonym Address = "64 word"

record Params =
  ChainID :: ChainID
  FungibleToken :: string
  StakingTable :: string
  Tokens :: "string \<Rightarrow> Token option"

text \<open>
  A parsed template of \<open>text/template\<close>: the texts between the actions, verbatim, and
  the actions, each a chain of fields \<open>{{.A.B}}\<close> (the only actions of the templates of
  the repository).
\<close>

datatype node = TextNode string | FieldNode "string list"

type_synonym template = "node list"

text \<open>A run of tab characters in a template text.\<close>

definition tabs :: "nat \<Rightarrow> string" where
  "tabs n = replicate n (CHR 0x09)"

text \<open>
  The errors of the generator: the invalid symbol of \<open>compile\<close>, the failure of
  \<open>template.Execute\<close> on a field the data does not have, and \<open>Errorf msg e\<close> for
  \<open>fmt.Errorf("msg: %w", e)\<close>.
\<close>

datatype generr =
    InvalidTokenSymbol string
  | CantEvaluateField "string list"
  | Errorf string generr

text \<open>
  The data of \<open>compile\<close> is a struct of \<open>Params\<close> and \<open>Token\<close>; \<open>evalField\<close> follows a
  chain of fields in it and \<open>Execute\<close> writes the texts and the values of the fields to
  the buffer in order, failing at the first chain that names no field.
\<close>

definition fieldNames :: "string list list" where
  "fieldNames =
     [[''Params'', ''FungibleToken''], [''Params'', ''StakingTable''], [''Params'', ''ChainID''],
      [''Token'', ''Symbol''], [''Token'', ''Address''], [''Token'', ''Type''], [''Token'', ''Balance'']]"

definition evalField :: "Params \<Rightarrow> Token \<Rightarrow> string list \<Rightarrow> string option" where
  "evalField params token chain =
     (if chain = [''Params'', ''FungibleToken''] then Some (FungibleToken params)
      else if chain = [''Params'', ''StakingTable''] then Some (StakingTable params)
      else if chain = [''Params'', ''ChainID''] then Some (ChainID params)
      else if chain = [''Token'', ''Symbol''] then Some (Symbol token)
      else if chain = [''Token'', ''Address''] then Some (Address token)
      else if chain = [''Token'', ''Type''] then Some (Type token)
      else if chain = [''Token'', ''Balance''] then Some (Balance token)
      else None)"

fun Execute :: "template \<Rightarrow> string \<Rightarrow> Params \<Rightarrow> Token \<Rightarrow> generr + string" where
  "Execute [] buf params token = Inr buf"
| "Execute (TextNode s # rest) buf params token = Execute rest (buf @ s) params token"
| "Execute (FieldNode chain # rest) buf params token =
     (case evalField params token chain of
        None \<Rightarrow> Inl (CantEvaluateField chain)
      | Some v \<Rightarrow> Execute rest (buf @ v) params token)"

text \<open>The constant \<open>getStakedBalance\<close> of get_staked_balance.go.\<close>

definition getStakedBalance :: template where
  \<open>getStakedBalance =
     [TextNode (''\<newline>'' @
                ''// This script reads the balance field of an account's FlowToken Balance\<newline>'' @
                ''// and total balance of all staked nodes with their delegators\<newline>'' @
                ''\<newline>'' @
                ''import FungibleToken from 0x''),
      FieldNode [''Params'', ''FungibleToken''],
      TextNode (''\<newline>'' @
                ''import ''),
      FieldNode [''Token'', ''Type''],
      TextNode ('' from 0x''),
      FieldNode [''Token'', ''Address''],
      TextNode (''\<newline>'' @
                ''import FlowIDTableStaking from 0x''),
      FieldNode [''Params'', ''StakingTable''],
      TextNode (''\<newline>'' @
                ''\<newline>'' @
                ''\<newline>'' @
                ''pub fun main(account: Address): UFix64 {\<newline>'' @
                ''\<newline>'' @
                ''    let vaultRef = getAccount(account)\<newline>'' @
                ''        .getCapability(''),
      FieldNode [''Token'', ''Balance''],
      TextNode ('')\<newline>'' @
                ''        .borrow<&''),
      FieldNode [''Token'', ''Type''],
      TextNode (''.Vault{FungibleToken.Balance}>()\<newline>'' @
                ''        ?? panic("Could not borrow Balance reference to the Vault")\<newline>'' @
                ''\<newline>'' @
                tabs 1 @ ''let vaultBalance = vaultRef.balance\<newline>'' @
                ''\<newline>'' @
                tabs 1 @ ''// Sum up all tokens from all delegators and all stake\<newline>'' @
                tabs 1 @ ''let allNodeIDs = FlowIDTableStaking.getNodeIDs()\<newline>'' @
                ''\<newline>'' @
                ''    var totalTokens: UFix64 = 0.0\<newline>'' @
                ''\<newline>'' @
                ''    for nodeID in allNodeIDs {\<newline>'' @
                ''        let nodeInfo = FlowIDTableStaking.NodeInfo(nodeID: nodeID)\<newline>'' @
                ''        let delegatorsIDs = nodeInfo.delegators\<newline>'' @
                ''\<newline>'' @
                ''        totalTokens = totalTokens + nodeInfo.totalTokensInRecord()\<newline>'' @
                ''\<newline>'' @
                ''        for delegatorID in delegatorsIDs {\<newline>'' @
                ''            let delegatorInfo = FlowIDTableStaking.DelegatorInfo(nodeID: nodeID, delegatorID: delegatorID)\<newline>'' @
                ''\<newline>'' @
                ''\<newline>'' @
                ''            totalTokens = totalTokens + delegatorInfo.totalTokensInRecord()\<newline>'' @
                ''        }\<newline>'' @
                ''    }\<newline>'' @
                ''\<newline>'' @
                ''    return vaultBalance + stakedBalance\<newline>'' @
                ''}\<newline>'')]\<close>

text \<open>The two entries of the table \<open>mainnetContracts\<close>, and the table.\<close>

definition mainnet_c6c77b9f5c7a378f :: template where
  \<open>mainnet_c6c77b9f5c7a378f =
     [TextNode (''// This script reads the Flow balance of FlowSwapPair contract as well as standard Flow vault balance\<newline>'' @
                tabs 2 @ ''import FungibleToken from 0x''),
      FieldNode [''Params'', ''FungibleToken''],
      TextNode (''\<newline>'' @
                tabs 2 @ ''import ''),
      FieldNode [''Token'', ''Type''],
      TextNode ('' from 0x''),
      FieldNode [''Token'', ''Address''],
      TextNode (''\<newline>'' @
                tabs 2 @ ''import FlowSwapPair from 0xc6c77b9f5c7a378f //parametrize address - does it exist on other chains?\<newline>'' @
                tabs 2 @ ''pub fun main(account: Address): UFix64 {\<newline>'' @
                tabs 3 @ ''let vaultRef = getAccount(account)\<newline>'' @
                tabs 4 @ ''.getCapability(''),
      FieldNode [''Token'', ''Balance''],
      TextNode ('')\<newline>'' @
                tabs 4 @ ''.borrow<&''),
      FieldNode [''Token'', ''Type''],
      TextNode (''.Vault{FungibleToken.Balance}>()\<newline>'' @
                tabs 4 @ ''?? panic("Could not borrow Balance reference to the Vault")\<newline>'' @
                tabs 2 @ ''\<newline>'' @
                tabs 3 @ ''return vaultRef.balance + FlowSwapPair.getPoolAmounts().token1Amount\<newline>'' @
                tabs 2 @ ''}\<newline>'' @
                tabs 1)]\<close>

definition mainnet_d796ff17107bbff6 :: template where
  \<open>mainnet_d796ff17107bbff6 =
     [TextNode (''\<newline>'' @
                tabs 2 @ ''import FungibleToken from 0x''),
      FieldNode [''Params'', ''FungibleToken''],
      TextNode (''\<newline>'' @
                tabs 2 @ ''import ''),
      FieldNode [''Token'', ''Type''],
      TextNode ('' from 0x''),
      FieldNode [''Token'', ''Address''],
      TextNode (''\<newline>'' @
                tabs 2 @ ''import Versus from 0xd796ff17107bbff6\<newline>'' @
                tabs 2 @ ''\<newline>'' @
                tabs 2 @ ''pub fun main(account: Address): UFix64 {\<newline>'' @
                tabs 2 @ ''\<newline>'' @
                tabs 3 @ ''// default flow token\<newline>'' @
                tabs 3 @ ''let vaultRef = getAccount(account)\<newline>'' @
                tabs 4 @ ''.getCapability(''),
      FieldNode [''Token'', ''Balance''],
      TextNode ('')\<newline>'' @
                tabs 4 @ ''.borrow<&''),
      FieldNode [''Token'', ''Type''],
      TextNode (''.Vault{FungibleToken.Balance}>()\<newline>'' @
                tabs 4 @ ''?? panic("Could not borrow Balance reference to the Vault")\<newline>'' @
                tabs 2 @ ''\<newline>'' @
                tabs 2 @ ''\<newline>'' @
                tabs 3 @ ''// sum of all public drops\<newline>'' @
                tabs 3 @ ''let publicDrop = getAccount(0xd796ff17107bbff6)\<newline>'' @
                tabs 4 @ ''.getCapability(Versus.CollectionPublicPath)\<newline>'' @
                tabs 4 @ ''.borrow<&{Versus.PublicDrop}>()\<newline>'' @
                tabs 4 @ ''?? panic("Could not borrow Balance reference to the PublicDrop")\<newline>'' @
                tabs 2 @ ''\<newline>'' @
                tabs 3 @ ''let allStatuses = publicDrop.getAllStatuses()\<newline>'' @
                tabs 2 @ ''\<newline>'' @
                tabs 3 @ ''var totalFlow = 0.0\<newline>'' @
                tabs 2 @ ''\<newline>'' @
                tabs 3 @ ''for dropId in allStatuses.keys {\<newline>'' @
                tabs 4 @ ''let dropStatus = allStatuses[dropId]\<newline>'' @
                tabs 4 @ ''totalFlow = totalFlow + (dropStatus?.uniquePrice ?? 0.0) + (dropStatus?.editionPrice ?? 0.0)\<newline>'' @
                tabs 3 @ ''}\<newline>'' @
                tabs 2 @ ''\<newline>'' @
                tabs 3 @ ''return totalFlow + vaultRef.balance\<newline>'' @
                tabs 2 @ ''}\<newline>'' @
                tabs 1)]\<close>

definition mainnetContracts :: "(string \<times> template) list" where
  "mainnetContracts =
     [(''c6c77b9f5c7a378f'', mainnet_c6c77b9f5c7a378f),
      (''d796ff17107bbff6'', mainnet_d796ff17107bbff6)]"

text \<open>
  \<open>flow.Mainnet\<close> and \<open>flow.HexToAddress\<close> of the Flow library; an address is 8 bytes,
  here a 64-bit word, and \<open>HexToAddress\<close> reads hexadecimal digits in lower case, as the
  keys of \<open>mainnetContracts\<close> are written, the first digit the most significant.
\<close>

definition Mainnet :: ChainID where
  "Mainnet = ''flow-mainnet''"

definition hexDigit :: "char \<Rightarrow> 64 word" where
  "hexDigit c = word_of_nat (length (takeWhile (\<lambda>d. d \<noteq> c) ''0123456789abcdef''))"

definition HexToAddress :: "string \<Rightarrow> Address" where
  "HexToAddress h = foldl (\<lambda>a c. push_bit 4 a OR hexDigit c) 0 h"

text \<open>
  The generator: its fields are prefixed with \<open>g_\<close> where the package has a constant
  of the same name. \<open>NewGenerator\<close> takes the five templates whose constants are not
  under src/ as arguments.
\<close>

record Generator =
  params :: Params
  g_getBalance :: template
  g_getStakedBalance :: template
  g_transferTokens :: template
  g_tokensDeposited :: template
  g_tokensWithdrawn :: template
  g_delegatorRewardsPaid :: template
  custom :: "ChainID \<Rightarrow> (Address \<Rightarrow> template option) option"

definition mainnetCustom :: "Address \<Rightarrow> template option" where
  "mainnetCustom =
     foldl (\<lambda>m (address, contract). m(HexToAddress address \<mapsto> contract)) Map.empty mainnetContracts"

definition NewGenerator ::
  "template \<Rightarrow> template \<Rightarrow> template \<Rightarrow> template \<Rightarrow> template \<Rightarrow> Params \<Rightarrow> Generator" where
  "NewGenerator getBalance transferTokens tokensDeposited tokensWithdrawn delegatorRewardsPaid ps =
     \<lparr>params = ps,
      g_getBalance = getBalance,
      g_getStakedBalance = getStakedBalance,
      g_transferTokens = transferTokens,
      g_tokensDeposited = tokensDeposited,
      g_tokensWithdrawn = tokensWithdrawn,
      g_delegatorRewardsPaid = delegatorRewardsPaid,
      custom = [Mainnet \<mapsto> mainnetCustom]\<rparr>"

text \<open>
  The methods. \<open>g_bytes\<close> and \<open>g_string\<close> are the methods \<open>bytes\<close> and \<open>string\<close>; a
  result is the Go tuple, with \<open>None\<close> for nil.
\<close>

definition compile :: "Generator \<Rightarrow> template \<Rightarrow> string \<Rightarrow> generr + string" where
  "compile g tmpl symbol =
     (case Tokens (params g) symbol of
        None \<Rightarrow> Inl (InvalidTokenSymbol symbol)
      | Some token \<Rightarrow>
          (case Execute tmpl [] (params g) token of
             Inl err \<Rightarrow> Inl (Errorf ''could not execute template'' err)
           | Inr buf \<Rightarrow> Inr buf))"

definition g_bytes :: "Generator \<Rightarrow> template \<Rightarrow> string \<Rightarrow> string option \<times> generr option" where
  "g_bytes g tmpl symbol =
     (case compile g tmpl symbol of
        Inl err \<Rightarrow> (None, Some (Errorf ''could not compile template'' err))
      | Inr buf \<Rightarrow> (Some buf, None))"

definition g_string :: "Generator \<Rightarrow> template \<Rightarrow> string \<Rightarrow> string \<times> generr option" where
  "g_string g tmpl symbol =
     (case compile g tmpl symbol of
        Inl err \<Rightarrow> ([], Some (Errorf ''could not compile template'' err))
      | Inr buf \<Rightarrow> (buf, None))"

definition GetBalance :: "Generator \<Rightarrow> string \<Rightarrow> string option \<times> generr option" where
  "GetBalance g symbol = g_bytes g (g_getBalance g) symbol"

definition GetStakedBalance :: "Generator \<Rightarrow> string \<Rightarrow> string option \<times> generr option" where
  "GetStakedBalance g symbol = g_bytes g (g_getStakedBalance g) symbol"

definition TransferTokens :: "Generator \<Rightarrow> string \<Rightarrow> string option \<times> generr option" where
  "TransferTokens g symbol = g_bytes g (g_transferTokens g) symbol"

definition TokensDeposited :: "Generator \<Rightarrow> string \<Rightarrow> string \<times> generr option" where
  "TokensDeposited g symbol = g_string g (g_tokensDeposited g) symbol"

definition TokensWithdrawn :: "Generator \<Rightarrow> string \<Rightarrow> string \<times> generr option" where
  "TokensWithdrawn g symbol = g_string g (g_tokensWithdrawn g) symbol"

definition DelegatorRewardsPaid :: "Generator \<Rightarrow> string \<Rightarrow> string \<times> generr option" where
  "DelegatorRewardsPaid g symbol = g_string g (g_delegatorRewardsPaid g) symbol"

definition Custom ::
  "Generator \<Rightarrow> string \<Rightarrow> ChainID \<Rightarrow> Address \<Rightarrow> bool \<times> string option \<times> generr option" where
  "Custom g symbol chainID address =
     (case custom g chainID of
        None \<Rightarrow> (False, None, None)
      | Some chainCustom \<Rightarrow>
          (case chainCustom address of
             None \<Rightarrow> (False, None, None)
           | Some tmpl \<Rightarrow> (True, g_bytes g tmpl symbol)))"

text \<open>
  A template is well formed when each of its actions names a field of the data.
\<close>

definition wellFormed :: "template \<Rightarrow> bool" where
  "wellFormed tmpl =
     list_all (\<lambda>n. case n of TextNode s \<Rightarrow> True | FieldNode chain \<Rightarrow> chain \<in> set fieldNames) tmpl"

text \<open>
  The text a well-formed template renders to: the texts and the values of the fields,
  in order.
\<close>

definition render :: "Params \<Rightarrow> Token \<Rightarrow> template \<Rightarrow> string" where
  "render ps token tmpl =
     concat (map (\<lambda>n. case n of
                         TextNode s \<Rightarrow> s
                       | FieldNode chain \<Rightarrow> (case evalField ps token chain of None \<Rightarrow> [] | Some v \<Rightarrow> v))
                 tmpl)"

text \<open>
  Modelled from the spec: the constant \<open>getBalance\<close>, the template of the balance script,
  is not under src/. By section 4.2 the script is rendered from the chain parameters and
  the type name, the address and the balance-capability path of the token, and by section
  8 its text holds the address and the path. The text here is what the three scripts under
  src/ share: the two imports and the borrow of the vault, whose balance it returns.
\<close>

definition getBalance :: template where
  \<open>getBalance =
     [TextNode (''import FungibleToken from 0x''),
      FieldNode [''Params'', ''FungibleToken''],
      TextNode (''\<newline>'' @
                ''import ''),
      FieldNode [''Token'', ''Type''],
      TextNode ('' from 0x''),
      FieldNode [''Token'', ''Address''],
      TextNode (''\<newline>'' @
                ''\<newline>'' @
                ''pub fun main(account: Address): UFix64 {\<newline>'' @
                ''\<newline>'' @
                ''    let vaultRef = getAccount(account)\<newline>'' @
                ''        .getCapability(''),
      FieldNode [''Token'', ''Balance''],
      TextNode ('')\<newline>'' @
                ''        .borrow<&''),
      FieldNode [''Token'', ''Type''],
      TextNode (''.Vault{FungibleToken.Balance}>()\<newline>'' @
                ''        ?? panic("Could not borrow Balance reference to the Vault")\<newline>'' @
                ''\<newline>'' @
                ''    return vaultRef.balance\<newline>'' @
                ''}\<newline>'')]\<close>

text \<open>
  Parameters with one registered token, and a generator over them, for evaluating the
  operations: its balance template is \<open>getBalance\<close>, and the four other templates whose
  constants are not under src/ are empty.
\<close>

definition flowToken :: Token where
  "flowToken = \<lparr>Symbol = ''FLOW'', Address = ''1654653399040a61'', Type = ''FlowToken'',
     Balance = ''/public/flowTokenBalance''\<rparr>"

definition flowParams :: Params where
  "flowParams = \<lparr>ChainID = Mainnet, FungibleToken = ''f233dcee88fe0abe'',
     StakingTable = ''8624b52f9ddcd04a'', Tokens = [''FLOW'' \<mapsto> flowToken]\<rparr>"

definition flowGenerator :: Generator where
  "flowGenerator = NewGenerator getBalance [] [] [] [] flowParams"

section \<open>Properties of the resolver\<close>

lemmas Block_defs = Block_def checkHash_def checkIndex_def fillHeight_def matchHeader_def
  NewDescription_def first_def

lemmas sixBlocks_defs = sixBlocks_def hexIdentifiers_def chainIDs_def isHex_def lowerHex_def

text \<open>
  Claim C6. For a block identifier with no index and no hash, \<open>Block\<close> returns the height
  and the identifier of the head header that the chain-access collaborator reports; the
  result depends on nothing else, so every call against the same head returns the same pair,
  whatever else the collaborator or the libraries answer.
\<close>

theorem Block_latest:
  assumes "Index rosBlockID = None" and "Hash rosBlockID = []"
    and "GetLatestBlockHeader api = Inr head"
  shows "Block lib api rosBlockID = Inr (Height head, ID head) \<and>
         (\<forall>lib' api'. GetLatestBlockHeader api' = Inr head \<longrightarrow>
            Block lib' api' rosBlockID = Block lib api rosBlockID)"
  using assms by (simp add: Block_def)

text \<open>
  On the chain of six blocks, the empty identifier resolves to the head, height 5.
\<close>

theorem Block_latest_witness:
  "Index \<lparr>Index = None, Hash = []\<rparr> = None \<and>
   GetLatestBlockHeader sixBlocks =
     Inr \<lparr>Height = 5, ID = ''5555555555555555555555555555555555555555555555555555555555555555''\<rparr> \<and>
   Block hexIdentifiers sixBlocks \<lparr>Index = None, Hash = []\<rparr> =
     Inr (5, ''5555555555555555555555555555555555555555555555555555555555555555'')"
proof -
  have h: "GetLatestBlockHeader sixBlocks =
     Inr \<lparr>Height = 5, ID = ''5555555555555555555555555555555555555555555555555555555555555555''\<rparr>"
    by (simp add: sixBlocks_def)
  show ?thesis
    using Block_latest [of "\<lparr>Index = None, Hash = []\<rparr>" sixBlocks _ hexIdentifiers, OF _ _ h] h
    by simp
qed

text \<open>
  Claim C2 as stated fails: the identifier with index 10 and hash \<open>zz\<close>, against a head of
  height 5, carries an index above the head, and \<open>Block\<close> fails with \<open>InvalidBlock\<close> for the
  malformed hash, which it checks first, not with \<open>UnknownBlock\<close>.
\<close>

theorem Block_index_above_head_malformed_hash:
  "GetLatestBlockHeader sixBlocks =
     Inr \<lparr>Height = 5, ID = ''5555555555555555555555555555555555555555555555555555555555555555''\<rparr> \<and>
   Block hexIdentifiers sixBlocks \<lparr>Index = Some 10, Hash = ''zz''\<rparr> =
     Inl (InvalidBlock \<lparr>Text = blockInvalid, Named = [WithString ''block_hash'' ''zz'']\<rparr>)"
  by (simp add: Block_defs sixBlocks_defs)

text \<open>
  Claim C2, amended. For a block identifier carrying an index: when \<open>Block\<close> succeeds, the
  head header was fetched and the index is not above the height of the head; and when the
  hash is absent or a valid identifier and the head header is fetched, an index above the
  height of the head fails with \<open>UnknownBlock\<close> (too high), carrying the index, the given
  hash and the height of the head as \<open>last_index\<close>.
\<close>

theorem Block_index_range:
  assumes "Index rosBlockID = Some index"
  shows "(\<forall>r. Block lib api rosBlockID = Inr r \<longrightarrow>
            (\<exists>head. GetLatestBlockHeader api = Inr head \<and> index \<le> Height head)) \<and>
         (\<forall>head. (Hash rosBlockID = [] \<or> \<not> isl (HexStringToIdentifier lib (Hash rosBlockID))) \<and>
              GetLatestBlockHeader api = Inr head \<and> Height head < index \<longrightarrow>
            Block lib api rosBlockID =
              Inl (UnknownBlock index (Hash rosBlockID)
                     (NewDescription blockTooHigh [WithUint64 ''last_index'' (Height head)])))"
proof (intro conjI allI impI)
  fix r
  assume "Block lib api rosBlockID = Inr r"
  then show "\<exists>head. GetLatestBlockHeader api = Inr head \<and> index \<le> Height head"
    using assms
    by (auto simp add: Block_def checkIndex_def first_def split: option.splits sum.splits if_splits)
next
  fix head
  assume "(Hash rosBlockID = [] \<or> \<not> isl (HexStringToIdentifier lib (Hash rosBlockID))) \<and>
          GetLatestBlockHeader api = Inr head \<and> Height head < index"
  then show "Block lib api rosBlockID =
       Inl (UnknownBlock index (Hash rosBlockID)
              (NewDescription blockTooHigh [WithUint64 ''last_index'' (Height head)]))"
    using assms
    by (auto simp add: Block_def checkHash_def checkIndex_def first_def isl_def split: sum.splits)
qed

text \<open>
  On the chain of six blocks, index 9 is too high and index 3 resolves to its block.
\<close>

theorem Block_index_range_witness:
  "Index \<lparr>Index = Some 9, Hash = []\<rparr> = Some 9 \<and>
   Block hexIdentifiers sixBlocks \<lparr>Index = Some 9, Hash = []\<rparr> =
     Inl (UnknownBlock 9 [] (NewDescription blockTooHigh [WithUint64 ''last_index'' 5])) \<and>
   Block hexIdentifiers sixBlocks \<lparr>Index = Some 3, Hash = []\<rparr> =
     Inr (3, ''3333333333333333333333333333333333333333333333333333333333333333'')"
proof -
  have h: "GetLatestBlockHeader sixBlocks =
     Inr \<lparr>Height = 5, ID = ''5555555555555555555555555555555555555555555555555555555555555555''\<rparr>"
    by (simp add: sixBlocks_def)
  have i: "Index \<lparr>Index = Some 9, Hash = []\<rparr> = Some (9 :: 64 word)"
    by simp
  have "Block hexIdentifiers sixBlocks \<lparr>Index = Some 9, Hash = []\<rparr> =
     Inl (UnknownBlock 9 [] (NewDescription blockTooHigh [WithUint64 ''last_index'' 5]))"
    using Block_index_range [OF i, of hexIdentifiers sixBlocks] h by simp
  moreover have "Block hexIdentifiers sixBlocks \<lparr>Index = Some 3, Hash = []\<rparr> =
     Inr (3, ''3333333333333333333333333333333333333333333333333333333333333333'')"
    by (simp add: Block_defs sixBlocks_defs)
  ultimately show ?thesis by simp
qed

text \<open>
  Claim C7 as stated fails: the identifier with index 3 and hash \<open>zz\<close> carries a hash that
  differs from the canonical hash at height 3, and \<open>Block\<close> fails with \<open>InvalidBlock\<close> for the
  malformed hash, carrying the given hash only, not with the mismatch.
\<close>

theorem Block_mismatch_malformed_hash:
  "GetBlockHeaderByHeight sixBlocks 3 =
     Inr \<lparr>Height = 3, ID = ''3333333333333333333333333333333333333333333333333333333333333333''\<rparr> \<and>
   ''zz'' \<noteq> Hex hexIdentifiers ''3333333333333333333333333333333333333333333333333333333333333333'' \<and>
   Block hexIdentifiers sixBlocks \<lparr>Index = Some 3, Hash = ''zz''\<rparr> =
     Inl (InvalidBlock \<lparr>Text = blockInvalid, Named = [WithString ''block_hash'' ''zz'']\<rparr>)"
  by (simp add: Block_defs sixBlocks_defs)

text \<open>
  Claim C7, amended. For a block identifier carrying an index and a hash, where the hash
  is a valid identifier, the head header is fetched, the index is not above the height of
  the head, and the header fetched at the index has a canonical hash other than the given
  one, \<open>Block\<close> fails with \<open>InvalidBlock\<close> (mismatch), carrying the index, the given hash
  as \<open>block_hash\<close> and the canonical hash as \<open>want_hash\<close>.
\<close>

theorem Block_mismatch:
  assumes "Index rosBlockID = Some index" and "Hash rosBlockID \<noteq> []"
    and "HexStringToIdentifier lib (Hash rosBlockID) = Inr identifier"
    and "GetLatestBlockHeader api = Inr head" and "index \<le> Height head"
    and "GetBlockHeaderByHeight api index = Inr header"
    and "Hash rosBlockID \<noteq> Hex lib (ID header)"
  shows "Block lib api rosBlockID =
     Inl (InvalidBlock (NewDescription blockMismatch
            [WithUint64 ''block_index'' index,
             WithString ''block_hash'' (Hash rosBlockID),
             WithString ''want_hash'' (Hex lib (ID header))]))"
  using assms
  by (simp add: Block_def checkHash_def checkIndex_def fillHeight_def matchHeader_def first_def)

text \<open>
  On the chain of six blocks, index 3 with the hash of block 4 is a mismatch.
\<close>

theorem Block_mismatch_witness:
  "Block hexIdentifiers sixBlocks
     \<lparr>Index = Some 3, Hash = ''4444444444444444444444444444444444444444444444444444444444444444''\<rparr> =
   Inl (InvalidBlock (NewDescription blockMismatch
          [WithUint64 ''block_index'' 3,
           WithString ''block_hash'' ''4444444444444444444444444444444444444444444444444444444444444444'',
           WithString ''want_hash'' ''3333333333333333333333333333333333333333333333333333333333333333'']))"
proof -
  have a: "HexStringToIdentifier hexIdentifiers ''4444444444444444444444444444444444444444444444444444444444444444'' =
     Inr ''4444444444444444444444444444444444444444444444444444444444444444''"
    by (simp add: sixBlocks_defs)
  have h: "GetLatestBlockHeader sixBlocks =
     Inr \<lparr>Height = 5, ID = ''5555555555555555555555555555555555555555555555555555555555555555''\<rparr>"
    by (simp add: sixBlocks_def)
  have g: "GetBlockHeaderByHeight sixBlocks 3 =
     Inr \<lparr>Height = 3, ID = ''3333333333333333333333333333333333333333333333333333333333333333''\<rparr>"
    by (simp add: sixBlocks_defs)
  show ?thesis
    using Block_mismatch [of "\<lparr>Index = Some 3, Hash = ''4444444444444444444444444444444444444444444444444444444444444444''\<rparr>"
        3 hexIdentifiers _ sixBlocks, OF _ _ _ h _ g] a
    by (simp add: hexIdentifiers_def)
qed

section \<open>Properties of the normalizer\<close>

lemma map_add_rev_Cons:
  "result ++ map_of (rev ((k, t) # kvs)) = result(k \<mapsto> t) ++ map_of (rev kvs)"
proof -
  have "map_of (rev ((k, t) # kvs)) = [k \<mapsto> t] ++ map_of (rev kvs)"
    by (simp add: map_of_append)
  moreover have "result ++ ([k \<mapsto> t] ++ map_of (rev kvs)) = (result ++ [k \<mapsto> t]) ++ map_of (rev kvs)"
    by (simp only: map_add_assoc)
  moreover have "result ++ [k \<mapsto> t] = result(k \<mapsto> t)"
    by simp
  ultimately show ?thesis
    by simp
qed

lemma flatten_all:
  "flatten S U v = (if wellTyped v then Inr (normalise S U v) else Inl IndexOutOfRange)"
  "flattenFields S U names j subFields result =
     (if list_all wellTyped subFields \<and> (subFields = [] \<or> j + length subFields \<le> length names)
      then Inr (result ++ map_of (rev (zip (map Identifier (drop j names)) (map (normalise S U) subFields))))
      else Inl IndexOutOfRange)"
  "flattenPairs S U pairs result =
     (if list_all (\<lambda>item. wellTyped (snd item)) pairs
      then Inr (result ++ map_of (rev (map (\<lambda>item. (S (fst item), normalise S U (snd item))) pairs)))
      else Inl IndexOutOfRange)"
  "flattenValues S U vals acc =
     (if list_all wellTyped vals then Inr (acc @ map (normalise S U) vals)
      else Inl IndexOutOfRange)"
proof (induction S U v and S U names j subFields result and S U pairs result and S U vals acc
       rule: flatten_flattenFields_flattenPairs_flattenValues.induct)
  case (6 String Unquote subStructNames j subField rest result)
  show ?case
  proof (cases "j < length subStructNames")
    case True
    note j = this
    show ?thesis
    proof (cases "wellTyped subField")
      case True
      have fl: "flatten String Unquote subField = Inr (normalise String Unquote subField)"
        using "6.IH"(1) [OF j] True by simp
      have dr: "drop j subStructNames = subStructNames ! j # drop (Suc j) subStructNames"
        using j by (simp add: Cons_nth_drop_Suc)
      show ?thesis
        using "6.IH"(2) [OF j fl] j True
        by (auto simp add: fl dr map_add_rev_Cons simp del: rev.simps fun_upd_apply)
    next
      case False
      then show ?thesis using "6.IH"(1) [OF j] j by simp
    qed
  next
    case False
    then show ?thesis by simp
  qed
next
  case (8 String Unquote item rest result)
  show ?case
  proof (cases "wellTyped (snd item)")
    case True
    have fl: "flatten String Unquote (snd item) = Inr (normalise String Unquote (snd item))"
      using "8.IH"(1) True by simp
    show ?thesis
      using "8.IH"(2) [OF fl] True
      by (simp add: fl map_add_rev_Cons del: rev.simps fun_upd_apply)
  next
    case False
    then show ?thesis using "8.IH"(1) by simp
  qed
next
  case (10 String Unquote item rest result)
  show ?case
  proof (cases "wellTyped item")
    case True
    have fl: "flatten String Unquote item = Inr (normalise String Unquote item)"
      using "10.IH"(1) True by simp
    show ?thesis using "10.IH"(2) [OF fl] True by (simp add: fl)
  next
    case False
    then show ?thesis using "10.IH"(1) by simp
  qed
qed (auto split: option.splits)

text \<open>
  Claim C3 as stated fails: on an array holding a struct with one declared field and two
  field values, \<open>flatten\<close> panics at the second value and returns no tree.
\<close>

theorem flatten_more_values_than_names:
  "flatten exampleString exampleUnquote
     (Array [Struct (StructType [Field ''balance'']) [Scalar ''1.0'', Scalar ''2.0'']]) =
   Inl IndexOutOfRange"
  by (simp add: exampleString_def exampleUnquote_def)

text \<open>
  Claim C3, amended. For every value in which each struct has no more field values than
  its type declares fields, \<open>flatten\<close> (a total function: it terminates on every value)
  returns without a panic, and the tree it returns is the one the specification describes: a
  record becomes the mapping from field name to flattened field, a mapping the mapping
  from the text of the key to the flattened value, an array the list of the flattened
  elements in order, and a scalar its unquoted text, or its text when unquoting fails.
\<close>

theorem flatten_wellTyped:
  "wellTyped v \<Longrightarrow> flatten String Unquote v = Inr (normalise String Unquote v)"
  by (simp add: flatten_all)

text \<open>
  A struct of a quoted text and an array that holds a number and a dictionary.
\<close>

theorem flatten_wellTyped_witness:
  \<open>wellTyped (Struct (StructType [Field ''id'', Field ''tokens''])
               [Scalar ''"a"'', Array [Scalar ''1.0'', Dictionary [(Scalar ''k'', Scalar ''2'')]]]) \<and>
   flatten exampleString exampleUnquote
     (Struct (StructType [Field ''id'', Field ''tokens''])
        [Scalar ''"a"'', Array [Scalar ''1.0'', Dictionary [(Scalar ''k'', Scalar ''2'')]]]) =
   Inr (TMap [''id'' \<mapsto> TString ''a'',
              ''tokens'' \<mapsto> TList [TString ''1.0'', TMap [''k'' \<mapsto> TString ''2'']]])\<close>
proof -
  have w: \<open>wellTyped (Struct (StructType [Field ''id'', Field ''tokens''])
               [Scalar ''"a"'', Array [Scalar ''1.0'', Dictionary [(Scalar ''k'', Scalar ''2'')]]])\<close>
    by simp
  show ?thesis
    using flatten_wellTyped [OF w, of exampleString exampleUnquote] w
    by (simp add: exampleString_def exampleUnquote_def)
qed

text \<open>
  Claim C10. A struct with more field values than its type declares fields makes \<open>flatten\<close>
  panic on the index out of range, and \<open>flatten\<close> returns a tree only for a value in which
  every struct it descends into has no more field values than declared fields.
\<close>

theorem flatten_panics:
  "(length (Fields structType) < length subFields \<longrightarrow>
      flatten String Unquote (Struct structType subFields) = Inl IndexOutOfRange) \<and>
   ((\<exists>t. flatten String Unquote v = Inr t) \<longrightarrow> wellTyped v)"
  by (auto simp add: flatten_all split: if_splits)

text \<open>
  A struct with one field value and no declared field.
\<close>

theorem flatten_panics_witness:
  "length (Fields (StructType [])) < length [Scalar ''x''] \<and>
   flatten exampleString exampleUnquote (Struct (StructType []) [Scalar ''x'']) = Inl IndexOutOfRange"
  using flatten_panics [of "StructType []" "[Scalar ''x'']" exampleString exampleUnquote]
  by simp

section \<open>Properties of the converter\<close>

lemmas formatNat_numeral = formatNat.simps [of "numeral n" for n] formatNat.simps [of 0] formatNat.simps [of 1]
  formatNat.simps [of "Suc 0"]

lemmas convert_defs = UFix64ToUInt64String_def NewUFix64_def validUFix64_def splitPoint_def canonicalDigits_def
    scaled_def decimal_def digitVal_def isDigit_def FormatUint_def formatNat_numeral digitChar_def digitChars_def
    formatUFix64_def pad8_def

lemma digitVal_digitChar: "d < 10 \<Longrightarrow> digitVal (digitChar d) = d"
proof -
  assume "d < 10"
  then have "d \<in> {0, 1, 2, 3, 4, 5, 6, 7, 8, 9}" by auto
  then show ?thesis
    by (auto simp add: digitVal_def digitChar_def digitChars_def)
qed

lemma digitChar_digitVal: "isDigit c \<Longrightarrow> digitChar (digitVal c) = c"
  by (auto simp add: isDigit_def digitVal_def digitChar_def digitChars_def)

lemma digitVal_less: "isDigit c \<Longrightarrow> digitVal c < 10"
  by (auto simp add: isDigit_def digitVal_def digitChars_def)

lemma isDigit_digitChar: "d < 10 \<Longrightarrow> isDigit (digitChar d)"
proof -
  assume "d < 10"
  then have "d \<in> {0, 1, 2, 3, 4, 5, 6, 7, 8, 9}" by auto
  then show ?thesis
    by (auto simp add: isDigit_def digitChar_def digitChars_def)
qed

lemma digitVal_zero: "isDigit c \<Longrightarrow> (digitVal c = 0) = (c = CHR ''0'')"
  by (auto simp add: isDigit_def digitVal_def digitChars_def)

lemma decimal_Nil: "decimal [] = 0"
  by (simp add: decimal_def)

lemma decimal_snoc: "decimal (s @ [c]) = 10 * decimal s + digitVal c"
  by (simp add: decimal_def)

lemma decimal_formatNat: "decimal (formatNat n) = n"
proof (induction n rule: formatNat.induct)
  case (1 n)
  show ?case
  proof (cases "n < 10")
    case True
    then show ?thesis
      using decimal_snoc [of "[]" "digitChar n"]
      by (simp add: formatNat.simps [of n] decimal_Nil digitVal_digitChar)
  next
    case False
    then show ?thesis
      using "1.IH"
      by (simp add: formatNat.simps [of n] decimal_snoc digitVal_digitChar)
  qed
qed

lemma foldl_decimal: "foldl (\<lambda>n c. 10 * n + digitVal c) a s = a * 10 ^ length s + decimal s"
  unfolding decimal_def
proof (induction s arbitrary: a)
  case Nil
  show ?case by simp
next
  case (Cons c s)
  show ?case
    using Cons.IH [of "10 * a + digitVal c"] Cons.IH [of "digitVal c"]
    by (simp add: algebra_simps)
qed

lemma decimal_Cons: "decimal (c # s) = digitVal c * 10 ^ length s + decimal s"
  using foldl_decimal [of "digitVal c" s] by (simp add: decimal_def)

lemma decimal_less: "list_all isDigit s \<Longrightarrow> decimal s < 10 ^ length s"
proof (induction s rule: rev_induct)
  case Nil
  show ?case by (simp add: decimal_Nil)
next
  case (snoc c s)
  then have "decimal s < 10 ^ length s" and "digitVal c < 10"
    by (simp_all add: digitVal_less)
  then have "10 * decimal s + digitVal c < 10 * 10 ^ length s"
    by linarith
  then show ?case by (simp add: decimal_snoc)
qed

lemma decimal_pos:
  assumes "list_all isDigit s" and "s \<noteq> []" and "hd s \<noteq> CHR ''0''"
  shows "0 < decimal s"
proof (cases s)
  case Nil
  with assms show ?thesis by simp
next
  case (Cons c t)
  with assms have "digitVal c \<noteq> 0"
    by (simp add: digitVal_zero)
  then show ?thesis
    by (simp add: Cons decimal_Cons)
qed

lemma formatNat_decimal: "canonicalDigits s \<Longrightarrow> formatNat (decimal s) = s"
proof (induction s rule: rev_induct)
  case Nil
  then show ?case by (simp add: canonicalDigits_def)
next
  case (snoc c s)
  have c: "isDigit c" and ds: "list_all isDigit s"
    using snoc.prems by (simp_all add: canonicalDigits_def)
  show ?case
  proof (cases "s = []")
    case True
    then show ?thesis
      using c decimal_snoc [of "[]" c]
      by (simp add: decimal_Nil formatNat.simps [of "digitVal c"] digitVal_less digitChar_digitVal)
  next
    case False
    then have hd: "hd s \<noteq> CHR ''0''"
      using snoc.prems by (cases s) (auto simp add: canonicalDigits_def)
    then have can: "canonicalDigits s"
      using False ds by (simp add: canonicalDigits_def)
    have "0 < decimal s"
      using ds False hd by (rule decimal_pos)
    then have big: "\<not> 10 * decimal s + digitVal c < 10"
      by simp
    have dv: "(10 * decimal s + digitVal c) div 10 = decimal s"
      and md: "(10 * decimal s + digitVal c) mod 10 = digitVal c"
      using digitVal_less [OF c] by simp_all
    show ?thesis
      using snoc.IH [OF can] big c
      by (simp only: decimal_snoc formatNat.simps [of "10 * decimal s + digitVal c"] dv md
          digitChar_digitVal if_False)
  qed
qed

lemma strip_zeros:
  "list_all isDigit s \<Longrightarrow> s \<noteq> [] \<Longrightarrow>
     \<exists>k. s = replicate k (CHR ''0'') @ formatNat (decimal s)"
proof (induction s)
  case Nil
  then show ?case by simp
next
  case (Cons c s)
  show ?case
  proof (cases "c = CHR ''0'' \<and> s \<noteq> []")
    case True
    then obtain k where k: "s = replicate k (CHR ''0'') @ formatNat (decimal s)"
      using Cons by auto
    have "isDigit c" using Cons.prems by simp
    then have "decimal (c # s) = decimal s"
      using True by (simp add: decimal_Cons digitVal_zero)
    then have "c # s = replicate (Suc k) (CHR ''0'') @ formatNat (decimal (c # s))"
      using k True by simp
    then show ?thesis by blast
  next
    case False
    then have "canonicalDigits (c # s)"
      using Cons.prems by (auto simp add: canonicalDigits_def)
    then have "c # s = replicate 0 (CHR ''0'') @ formatNat (decimal (c # s))"
      by (simp add: formatNat_decimal)
    then show ?thesis by blast
  qed
qed

lemma pad8_formatNat:
  assumes "list_all isDigit s" and "length s = 8"
  shows "pad8 (formatNat (decimal s)) = s"
proof -
  have "s \<noteq> []" using assms(2) by auto
  then obtain k where k: "s = replicate k (CHR ''0'') @ formatNat (decimal s)"
    using strip_zeros [OF assms(1)] by blast
  have z: "''00000000'' = replicate 8 (CHR ''0'')"
    by (simp add: numeral_eq_Suc)
  have len: "k + length (formatNat (decimal s)) = 8"
    using k assms(2) by (metis length_append length_replicate)
  then have "drop (length (formatNat (decimal s))) (replicate 8 (CHR ''0'')) = replicate k (CHR ''0'')"
    by (simp add: drop_replicate)
  then show ?thesis
    unfolding pad8_def z using k by simp
qed

lemma splitPoint_Some:
  assumes "splitPoint s = Some (integer, fractional)"
  shows "s = integer @ ''.'' @ fractional"
proof -
  obtain x where d: "dropWhile (\<lambda>c. c \<noteq> CHR ''.'') s = x # fractional"
    and t: "integer = takeWhile (\<lambda>c. c \<noteq> CHR ''.'') s"
    using assms by (auto simp add: splitPoint_def split: list.splits)
  have "x = hd (dropWhile (\<lambda>c. c \<noteq> CHR ''.'') s)"
    by (simp add: d)
  then have "x = CHR ''.''"
    using hd_dropWhile [of "\<lambda>c. c \<noteq> CHR ''.''" s] d by auto
  moreover have "takeWhile (\<lambda>c. c \<noteq> CHR ''.'') s @ dropWhile (\<lambda>c. c \<noteq> CHR ''.'') s = s"
    by simp
  ultimately show ?thesis
    using d t by (metis append_Cons append_Nil)
qed

lemma formatUFix64_scaled:
  assumes "list_all isDigit fractional" and "length fractional = 8"
  shows "formatUFix64 (scaled integer fractional) =
           formatNat (decimal integer) @ ''.'' @ fractional"
proof -
  have "decimal fractional < 10 ^ 8"
    using decimal_less [OF assms(1)] assms(2) by simp
  then have "scaled integer fractional div 10 ^ 8 = decimal integer"
    and "scaled integer fractional mod 10 ^ 8 = decimal fractional"
    by (simp_all add: scaled_def)
  then show ?thesis
    using assms by (simp add: formatUFix64_def pad8_formatNat)
qed

text \<open>
  Claim C1. For every string that is not a valid 8-decimal unsigned fixed-point
  representation, \<open>UFix64ToUInt64String\<close> returns the parse error and the empty string, no
  integer string.
\<close>

theorem UFix64ToUInt64String_rejects:
  "\<not> validUFix64 s \<Longrightarrow> UFix64ToUInt64String s = ([], Some ParseError)"
  by (simp add: UFix64ToUInt64String_def NewUFix64_def)

text \<open>
  A fraction of one digit, a negative number and a text without digits are rejected.
\<close>

theorem UFix64ToUInt64String_rejects_witness:
  "\<not> validUFix64 ''1.0'' \<and> UFix64ToUInt64String ''1.0'' = ([], Some ParseError) \<and>
   \<not> validUFix64 ''-1.00000000'' \<and> UFix64ToUInt64String ''-1.00000000'' = ([], Some ParseError) \<and>
   \<not> validUFix64 ''abc'' \<and> UFix64ToUInt64String ''abc'' = ([], Some ParseError)"
proof -
  have a: "\<not> validUFix64 ''1.0''" and b: "\<not> validUFix64 ''-1.00000000''" and c: "\<not> validUFix64 ''abc''"
    by (simp_all add: validUFix64_def splitPoint_def canonicalDigits_def isDigit_def digitChars_def)
  show ?thesis
    using UFix64ToUInt64String_rejects [OF a] UFix64ToUInt64String_rejects [OF b]
      UFix64ToUInt64String_rejects [OF c] a b c
    by simp
qed

text \<open>
  Claim C4 as stated fails: the string \<open>01.00000000\<close> is valid, with 8 fractional digits,
  and \<open>UFix64ToUInt64String\<close> returns \<open>100000000\<close> for it, which formats back to
  \<open>1.00000000\<close>, not to the string given.
\<close>

theorem UFix64ToUInt64String_leading_zero:
  "validUFix64 ''01.00000000'' \<and>
   UFix64ToUInt64String ''01.00000000'' = (''100000000'', None) \<and>
   formatUFix64 (decimal ''100000000'') = ''1.00000000'' \<and>
   formatUFix64 (decimal ''100000000'') \<noteq> ''01.00000000''"
  by (simp add: convert_defs)

text \<open>
  Claim C4, amended. For every valid 8-decimal string, of integer part and fraction as
  written, \<open>UFix64ToUInt64String\<close> returns no error and the decimal digits of the integer
  value times \<open>10^8\<close> (the integer part times \<open>10^8\<close> plus the fraction, nothing rounded);
  formatting the number it returns back to the 8-decimal form gives the integer part
  without its redundant leading zeros, the point and the fraction, which is the string
  again when its integer part has no redundant leading zero.
\<close>

theorem UFix64ToUInt64String_exact:
  assumes "validUFix64 s"
  shows "\<exists>integer fractional.
           s = integer @ ''.'' @ fractional \<and>
           UFix64ToUInt64String s = (formatNat (scaled integer fractional), None) \<and>
           decimal (fst (UFix64ToUInt64String s)) = scaled integer fractional \<and>
           formatUFix64 (decimal (fst (UFix64ToUInt64String s))) =
             formatNat (decimal integer) @ ''.'' @ fractional \<and>
           (canonicalDigits integer \<longrightarrow>
              formatUFix64 (decimal (fst (UFix64ToUInt64String s))) = s)"
proof -
  obtain integer fractional where sp: "splitPoint s = Some (integer, fractional)"
    and len: "length fractional = 8"
    and dig: "list_all isDigit fractional" and fits: "scaled integer fractional < 2 ^ 64"
    using assms by (auto simp add: validUFix64_def split: option.splits)
  have s: "s = integer @ ''.'' @ fractional"
    using sp by (rule splitPoint_Some)
  have "unat (word_of_nat (scaled integer fractional) :: 64 word) = scaled integer fractional"
    using fits by (simp add: unat_of_nat)
  then have r: "UFix64ToUInt64String s = (formatNat (scaled integer fractional), None)"
    using assms sp by (simp add: UFix64ToUInt64String_def NewUFix64_def FormatUint_def)
  have d: "decimal (fst (UFix64ToUInt64String s)) = scaled integer fractional"
    by (simp add: r decimal_formatNat)
  have f: "formatUFix64 (decimal (fst (UFix64ToUInt64String s))) =
             formatNat (decimal integer) @ ''.'' @ fractional"
    using formatUFix64_scaled [OF dig len] d by simp
  have c: "canonicalDigits integer \<longrightarrow>
             formatUFix64 (decimal (fst (UFix64ToUInt64String s))) = s"
    using f s by (simp add: formatNat_decimal)
  show ?thesis
    using s r d f c by blast
qed

text \<open>
  One unit is one hundred million minor units, and the smallest amount is one minor unit.
\<close>

theorem UFix64ToUInt64String_exact_witness:
  "validUFix64 ''1.00000000'' \<and>
   UFix64ToUInt64String ''1.00000000'' = (''100000000'', None) \<and>
   formatUFix64 (decimal ''100000000'') = ''1.00000000'' \<and>
   validUFix64 ''0.00000001'' \<and>
   UFix64ToUInt64String ''0.00000001'' = (''1'', None) \<and>
   formatUFix64 (decimal ''1'') = ''0.00000001''"
proof -
  have a: "validUFix64 ''1.00000000''" and b: "validUFix64 ''0.00000001''"
    by (simp_all add: convert_defs)
  have "UFix64ToUInt64String ''1.00000000'' = (''100000000'', None)"
    and "UFix64ToUInt64String ''0.00000001'' = (''1'', None)"
    by (simp_all add: convert_defs)
  then show ?thesis
    using UFix64ToUInt64String_exact [OF a] UFix64ToUInt64String_exact [OF b] a b
    by (auto simp add: convert_defs)
qed

section \<open>Properties of the generator\<close>

lemma evalField_fieldNames:
  "chain \<in> set fieldNames \<Longrightarrow> \<exists>v. evalField ps token chain = Some v"
  by (auto simp add: fieldNames_def evalField_def)

lemma Execute_wellFormed:
  "wellFormed tmpl \<Longrightarrow> Execute tmpl buf ps token = Inr (buf @ render ps token tmpl)"
proof (induction tmpl arbitrary: buf)
  case Nil
  show ?case by (simp add: render_def)
next
  case (Cons n tmpl)
  then have wf: "wellFormed tmpl"
    by (simp add: wellFormed_def)
  show ?case
  proof (cases n)
    case (TextNode s)
    then show ?thesis
      using Cons.IH [OF wf, of "buf @ s"] by (simp add: render_def)
  next
    case (FieldNode chain)
    then have "chain \<in> set fieldNames"
      using Cons.prems by (simp add: wellFormed_def)
    then obtain v where v: "evalField ps token chain = Some v"
      using evalField_fieldNames by blast
    show ?thesis
      using Cons.IH [OF wf, of "buf @ v"] by (simp add: FieldNode v render_def)
  qed
qed

lemma render_field:
  assumes "FieldNode chain \<in> set tmpl" and "evalField ps token chain = Some v"
  shows "sublist v (render ps token tmpl)"
proof -
  obtain pre post where "tmpl = pre @ FieldNode chain # post"
    using assms(1) by (meson split_list)
  then have "render ps token tmpl = render ps token pre @ v @ render ps token post"
    using assms(2) by (simp add: render_def)
  then show ?thesis
    unfolding sublist_def by blast
qed

lemma g_bytes_invalid:
  "Tokens (params g) symbol = None \<Longrightarrow>
     g_bytes g tmpl symbol =
       (None, Some (Errorf ''could not compile template'' (InvalidTokenSymbol symbol)))"
  by (simp add: g_bytes_def compile_def)

lemma g_bytes_registered:
  "Tokens (params g) symbol = Some token \<Longrightarrow> wellFormed tmpl \<Longrightarrow>
     g_bytes g tmpl symbol = (Some (render (params g) token tmpl), None)"
  by (simp add: g_bytes_def compile_def Execute_wellFormed)

lemma wellFormed_getStakedBalance: "wellFormed getStakedBalance"
  by (simp add: wellFormed_def getStakedBalance_def fieldNames_def)

lemma wellFormed_mainnetContracts: "list_all (\<lambda>entry. wellFormed (snd entry)) mainnetContracts"
  by (simp add: wellFormed_def mainnetContracts_def mainnet_c6c77b9f5c7a378f_def
      mainnet_d796ff17107bbff6_def fieldNames_def)

lemma g_string_invalid:
  "Tokens (params g) symbol = None \<Longrightarrow>
     g_string g tmpl symbol =
       ([], Some (Errorf ''could not compile template'' (InvalidTokenSymbol symbol)))"
  by (simp add: g_string_def compile_def)

lemma g_string_registered:
  "Tokens (params g) symbol = Some token \<Longrightarrow> wellFormed tmpl \<Longrightarrow>
     g_string g tmpl symbol = (render (params g) token tmpl, None)"
  by (simp add: g_string_def compile_def Execute_wellFormed)

lemma render_token:
  "FieldNode [''Token'', ''Address''] \<in> set tmpl \<Longrightarrow> sublist (Address token) (render ps token tmpl)"
  "FieldNode [''Token'', ''Balance''] \<in> set tmpl \<Longrightarrow> sublist (Balance token) (render ps token tmpl)"
  by (auto intro!: render_field simp add: evalField_def)

lemma wellFormed_getBalance: "wellFormed getBalance"
  by (simp add: wellFormed_def getBalance_def fieldNames_def)

lemmas operation_defs = GetBalance_def GetStakedBalance_def TransferTokens_def TokensDeposited_def
  TokensWithdrawn_def DelegatorRewardsPaid_def

text \<open>
  Claim C8. For a symbol absent from the token registry, each of the six operations fails
  with the invalid token symbol error, under the wrapping of \<open>bytes\<close> and \<open>string\<close>, and
  returns no text. For a registered symbol, an operation whose template is well formed does
  not fail and returns the rendering of its template, so the invalid symbol is its only
  failure; the rendering holds the address of the token and its balance path, verbatim,
  where the template has the action for them. The template of the staked balance, which
  \<open>NewGenerator\<close> sets, is well formed and has both actions: for a registered symbol
  \<open>GetStakedBalance\<close> succeeds and its script holds the address and the path.
\<close>

theorem render_symbol:
  "(Tokens (params g) symbol = None \<longrightarrow>
      GetBalance g symbol =
        (None, Some (Errorf ''could not compile template'' (InvalidTokenSymbol symbol))) \<and>
      GetStakedBalance g symbol =
        (None, Some (Errorf ''could not compile template'' (InvalidTokenSymbol symbol))) \<and>
      TransferTokens g symbol =
        (None, Some (Errorf ''could not compile template'' (InvalidTokenSymbol symbol))) \<and>
      TokensDeposited g symbol =
        ([], Some (Errorf ''could not compile template'' (InvalidTokenSymbol symbol))) \<and>
      TokensWithdrawn g symbol =
        ([], Some (Errorf ''could not compile template'' (InvalidTokenSymbol symbol))) \<and>
      DelegatorRewardsPaid g symbol =
        ([], Some (Errorf ''could not compile template'' (InvalidTokenSymbol symbol)))) \<and>
   (\<forall>token. Tokens (params g) symbol = Some token \<longrightarrow>
      (wellFormed (g_getBalance g) \<longrightarrow>
         GetBalance g symbol = (Some (render (params g) token (g_getBalance g)), None)) \<and>
      (wellFormed (g_getStakedBalance g) \<longrightarrow>
         GetStakedBalance g symbol = (Some (render (params g) token (g_getStakedBalance g)), None)) \<and>
      (wellFormed (g_transferTokens g) \<longrightarrow>
         TransferTokens g symbol = (Some (render (params g) token (g_transferTokens g)), None)) \<and>
      (wellFormed (g_tokensDeposited g) \<longrightarrow>
         TokensDeposited g symbol = (render (params g) token (g_tokensDeposited g), None)) \<and>
      (wellFormed (g_tokensWithdrawn g) \<longrightarrow>
         TokensWithdrawn g symbol = (render (params g) token (g_tokensWithdrawn g), None)) \<and>
      (wellFormed (g_delegatorRewardsPaid g) \<longrightarrow>
         DelegatorRewardsPaid g symbol = (render (params g) token (g_delegatorRewardsPaid g), None)) \<and>
      (\<forall>tmpl. FieldNode [''Token'', ''Address''] \<in> set tmpl \<longrightarrow>
         sublist (Address token) (render (params g) token tmpl)) \<and>
      (\<forall>tmpl. FieldNode [''Token'', ''Balance''] \<in> set tmpl \<longrightarrow>
         sublist (Balance token) (render (params g) token tmpl))) \<and>
   (\<forall>token balance transfer deposited withdrawn rewards (ps :: Params).
      Tokens ps symbol = Some token \<longrightarrow>
        GetStakedBalance (NewGenerator balance transfer deposited withdrawn rewards ps) symbol =
          (Some (render ps token getStakedBalance), None) \<and>
        sublist (Address token) (render ps token getStakedBalance) \<and>
        sublist (Balance token) (render ps token getStakedBalance))"
proof (intro conjI allI impI)
  fix token balance transfer deposited withdrawn rewards and ps :: Params
  assume t: "Tokens ps symbol = Some token"
  show "GetStakedBalance (NewGenerator balance transfer deposited withdrawn rewards ps) symbol =
          (Some (render ps token getStakedBalance), None)"
    using g_bytes_registered [of "NewGenerator balance transfer deposited withdrawn rewards ps"
        symbol token getStakedBalance] t wellFormed_getStakedBalance
    by (simp add: GetStakedBalance_def NewGenerator_def)
  show "sublist (Address token) (render ps token getStakedBalance)"
    by (rule render_token) (simp add: getStakedBalance_def)
  show "sublist (Balance token) (render ps token getStakedBalance)"
    by (rule render_token) (simp add: getStakedBalance_def)
qed (simp_all add: operation_defs g_bytes_invalid g_string_invalid g_bytes_registered
      g_string_registered render_token)

lemmas flowGenerator_defs = flowGenerator_def NewGenerator_def flowParams_def flowToken_def

text \<open>
  The generator over the parameters with the token \<open>FLOW\<close>: an unknown symbol fails in the
  operations on bytes and on strings, and the balance script for \<open>FLOW\<close> holds the
  address and the balance path of the token.
\<close>

theorem render_symbol_witness:
  "Tokens (params flowGenerator) ''UNKNOWN'' = None \<and>
   GetBalance flowGenerator ''UNKNOWN'' =
     (None, Some (Errorf ''could not compile template'' (InvalidTokenSymbol ''UNKNOWN''))) \<and>
   TokensDeposited flowGenerator ''UNKNOWN'' =
     ([], Some (Errorf ''could not compile template'' (InvalidTokenSymbol ''UNKNOWN''))) \<and>
   Tokens (params flowGenerator) ''FLOW'' = Some flowToken \<and>
   wellFormed (g_getBalance flowGenerator) \<and>
   FieldNode [''Token'', ''Address''] \<in> set (g_getBalance flowGenerator) \<and>
   FieldNode [''Token'', ''Balance''] \<in> set (g_getBalance flowGenerator) \<and>
   (\<exists>script. GetBalance flowGenerator ''FLOW'' = (Some script, None) \<and>
      sublist ''1654653399040a61'' script \<and> sublist ''/public/flowTokenBalance'' script) \<and>
   (\<exists>script. GetStakedBalance flowGenerator ''FLOW'' = (Some script, None) \<and>
      sublist ''1654653399040a61'' script \<and> sublist ''/public/flowTokenBalance'' script) \<and>
   TokensDeposited flowGenerator ''FLOW'' = ([], None)"
proof -
  have t: "Tokens (params flowGenerator) ''FLOW'' = Some flowToken"
    and u: "Tokens (params flowGenerator) ''UNKNOWN'' = None"
    and b: "g_getBalance flowGenerator = getBalance"
    and d: "g_tokensDeposited flowGenerator = []"
    and p: "params flowGenerator = flowParams"
    and f: "Tokens flowParams ''FLOW'' = Some flowToken"
    and n: "flowGenerator = NewGenerator getBalance [] [] [] [] flowParams"
    by (simp_all add: flowGenerator_defs)
  have w: "wellFormed (g_getBalance flowGenerator)"
    using wellFormed_getBalance by (simp add: b)
  have e: "wellFormed (g_tokensDeposited flowGenerator)"
    by (simp add: d wellFormed_def)
  have m: "FieldNode [''Token'', ''Address''] \<in> set (g_getBalance flowGenerator)"
    "FieldNode [''Token'', ''Balance''] \<in> set (g_getBalance flowGenerator)"
    by (simp_all add: b getBalance_def)
  have a: "Address flowToken = ''1654653399040a61''" "Balance flowToken = ''/public/flowTokenBalance''"
    by (simp_all add: flowToken_def)
  have r: "render flowParams flowToken [] = []"
    by (simp add: render_def)
  note unknown = render_symbol [of flowGenerator "''UNKNOWN''"]
  note known = render_symbol [of flowGenerator "''FLOW''"]
  have 1: "GetBalance flowGenerator ''UNKNOWN'' =
     (None, Some (Errorf ''could not compile template'' (InvalidTokenSymbol ''UNKNOWN'')))"
    and 2: "TokensDeposited flowGenerator ''UNKNOWN'' =
     ([], Some (Errorf ''could not compile template'' (InvalidTokenSymbol ''UNKNOWN'')))"
    using unknown u by blast+
  have 3: "GetBalance flowGenerator ''FLOW'' = (Some (render flowParams flowToken getBalance), None)"
    using known t w b p by auto
  have 4: "sublist ''1654653399040a61'' (render flowParams flowToken getBalance)"
    "sublist ''/public/flowTokenBalance'' (render flowParams flowToken getBalance)"
    using known t m a b p by auto
  have "\<forall>token balance transfer deposited withdrawn rewards (ps :: Params).
      Tokens ps ''FLOW'' = Some token \<longrightarrow>
        GetStakedBalance (NewGenerator balance transfer deposited withdrawn rewards ps) ''FLOW'' =
          (Some (render ps token getStakedBalance), None) \<and>
        sublist (Address token) (render ps token getStakedBalance) \<and>
        sublist (Balance token) (render ps token getStakedBalance)"
    using known by blast
  then have "GetStakedBalance (NewGenerator getBalance [] [] [] [] flowParams) ''FLOW'' =
          (Some (render flowParams flowToken getStakedBalance), None) \<and>
        sublist (Address flowToken) (render flowParams flowToken getStakedBalance) \<and>
        sublist (Balance flowToken) (render flowParams flowToken getStakedBalance)"
    using f by blast
  then have 5: "GetStakedBalance flowGenerator ''FLOW'' =
       (Some (render flowParams flowToken getStakedBalance), None)"
    "sublist ''1654653399040a61'' (render flowParams flowToken getStakedBalance)"
    "sublist ''/public/flowTokenBalance'' (render flowParams flowToken getStakedBalance)"
    using a n by simp_all
  have 6: "TokensDeposited flowGenerator ''FLOW'' = ([], None)"
    using known t e d p r by auto
  show ?thesis
    using 1 2 3 4 5 6 t u w m by blast
qed

text \<open>
  Claim C9. For a chain identifier and an address with no entry in the override table,
  \<open>Custom\<close> returns false, nil bytes and a nil error; for a pair with an entry, it returns
  true and what \<open>bytes\<close> returns on the override template, which is what \<open>GetBalance\<close>
  returns when the override is the balance template.
\<close>

theorem Custom_lookup:
  "((case custom g chainID of None \<Rightarrow> None | Some chainCustom \<Rightarrow> chainCustom address) = None \<longrightarrow>
      Custom g symbol chainID address = (False, None, None)) \<and>
   (\<forall>chainCustom tmpl. custom g chainID = Some chainCustom \<and> chainCustom address = Some tmpl \<longrightarrow>
      Custom g symbol chainID address = (True, g_bytes g tmpl symbol) \<and>
      Custom g symbol chainID address = (True, GetBalance (g\<lparr>g_getBalance := tmpl\<rparr>) symbol))"
  by (auto simp add: Custom_def GetBalance_def g_bytes_def compile_def split: option.splits)

text \<open>
  The override table \<open>NewGenerator\<close> builds has the two addresses of \<open>mainnetContracts\<close>.
\<close>

lemma HexToAddress_mainnetContracts:
  "HexToAddress ''c6c77b9f5c7a378f'' = 0xc6c77b9f5c7a378f"
  "HexToAddress ''d796ff17107bbff6'' = 0xd796ff17107bbff6"
  by (simp_all add: HexToAddress_def hexDigit_def)

lemma mainnetCustom_eq:
  "mainnetCustom = [0xc6c77b9f5c7a378f \<mapsto> mainnet_c6c77b9f5c7a378f,
                    0xd796ff17107bbff6 \<mapsto> mainnet_d796ff17107bbff6]"
  by (simp add: mainnetCustom_def mainnetContracts_def HexToAddress_mainnetContracts)

text \<open>
  No override on another chain or for another address; the second entry of the table is
  found and rendered.
\<close>

theorem Custom_lookup_witness:
  "Custom flowGenerator ''FLOW'' ''flow-testnet'' 0xc6c77b9f5c7a378f = (False, None, None) \<and>
   Custom flowGenerator ''FLOW'' Mainnet 0x1654653399040a61 = (False, None, None) \<and>
   Custom flowGenerator ''FLOW'' Mainnet 0xd796ff17107bbff6 =
     (True, g_bytes flowGenerator mainnet_d796ff17107bbff6 ''FLOW'') \<and>
   Custom flowGenerator ''FLOW'' Mainnet 0xd796ff17107bbff6 =
     (True, GetBalance (flowGenerator\<lparr>g_getBalance := mainnet_d796ff17107bbff6\<rparr>) ''FLOW'')"
proof -
  have a: "custom flowGenerator ''flow-testnet'' = None"
    and b: "custom flowGenerator Mainnet = Some mainnetCustom"
    by (simp_all add: flowGenerator_defs Mainnet_def)
  have c: "mainnetCustom 0x1654653399040a61 = None"
    and d: "mainnetCustom 0xd796ff17107bbff6 = Some mainnet_d796ff17107bbff6"
    by (simp_all add: mainnetCustom_eq)
  have 1: "Custom flowGenerator ''FLOW'' ''flow-testnet'' 0xc6c77b9f5c7a378f = (False, None, None)"
    using Custom_lookup [where g = flowGenerator and chainID = "''flow-testnet''"
          and address = "0xc6c77b9f5c7a378f" and symbol = "''FLOW''"] a
    by simp
  have 2: "Custom flowGenerator ''FLOW'' Mainnet 0x1654653399040a61 = (False, None, None)"
    using Custom_lookup [where g = flowGenerator and chainID = Mainnet
          and address = "0x1654653399040a61" and symbol = "''FLOW''"] b c
    by simp
  have 3: "Custom flowGenerator ''FLOW'' Mainnet 0xd796ff17107bbff6 =
       (True, g_bytes flowGenerator mainnet_d796ff17107bbff6 ''FLOW'') \<and>
     Custom flowGenerator ''FLOW'' Mainnet 0xd796ff17107bbff6 =
       (True, GetBalance (flowGenerator\<lparr>g_getBalance := mainnet_d796ff17107bbff6\<rparr>) ''FLOW'')"
    using Custom_lookup [where g = flowGenerator and chainID = Mainnet
          and address = "0xd796ff17107bbff6" and symbol = "''FLOW''"] b d
    by blast
  show ?thesis
    using 1 2 3 by blast
qed

text \<open>
  Claim C5. For every registered symbol, the script \<open>GetStakedBalance\<close> renders ends with
  the statement that returns \<open>vaultBalance + stakedBalance\<close>: the return expression names
  \<open>stakedBalance\<close>, not the total \<open>totalTokens\<close> the script accumulates.
\<close>

theorem GetStakedBalance_return:
  "Tokens ps symbol = Some token \<Longrightarrow>
   \<exists>script.
     GetStakedBalance
       (NewGenerator balance transferTokens tokensDeposited tokensWithdrawn delegatorRewardsPaid ps)
       symbol =
     (Some (script @ ''    return vaultBalance + stakedBalance\<newline>}\<newline>''), None)"
  by (simp add: GetStakedBalance_def NewGenerator_def g_bytes_def compile_def getStakedBalance_def
      evalField_def)

text \<open>
  The script for \<open>FLOW\<close>.
\<close>

theorem GetStakedBalance_return_witness:
  "Tokens flowParams ''FLOW'' = Some flowToken \<and>
   (\<exists>script. GetStakedBalance flowGenerator ''FLOW'' =
      (Some (script @ ''    return vaultBalance + stakedBalance\<newline>}\<newline>''), None))"
proof -
  have t: "Tokens flowParams ''FLOW'' = Some flowToken"
    by (simp add: flowParams_def)
  show ?thesis
    using GetStakedBalance_return [OF t, of getBalance "[]" "[]" "[]" "[]"] t
    by (simp add: flowGenerator_def)
qed

end
